theory Spec2Isabelle
  imports Main
begin

section \<open>Python values\<close>

text \<open>
  A Python \<open>str\<close> is a sequence of Unicode code points, and \<open>len\<close> counts code points
  (the source text is Japanese or English). A string is therefore a list of code points;
  \<open>lit\<close> writes an ASCII literal of the source.
\<close>

type_synonym str = "nat list"

definition lit :: "string \<Rightarrow> str" where
  "lit s = map of_char s"

text \<open>
  Exceptions are values. \<open>DeepLException\<close> is the class the DeepL adapter names in its
  handlers, \<open>IndexError\<close> is what indexing an empty query set raises, and
  \<open>OtherException\<close> stands for every other subclass of \<open>Exception\<close>. The payload is the
  message \<open>str(e)\<close>.
\<close>

datatype exn = DeepLException str | IndexError str | OtherException str

fun exn_str :: "exn \<Rightarrow> str" where
  "exn_str (DeepLException m) = m"
| "exn_str (IndexError m) = m"
| "exn_str (OtherException m) = m"

section \<open>Direction resolver\<close>

text \<open>\<open>translation_direction\<close> of utils.py.\<close>

definition translation_direction :: "str \<Rightarrow> str \<times> str" where
  "translation_direction direction =
     (if direction = lit ''Ja>En'' then (lit ''ja'', lit ''en-us'')
      else (lit ''en'', lit ''ja''))"

text \<open>\<open>translation_direction\<close> of views.py (the same text as in utils.py).\<close>

definition views_translation_direction :: "str \<Rightarrow> str \<times> str" where
  "views_translation_direction direction =
     (if direction = lit ''Ja>En'' then (lit ''ja'', lit ''en-us'')
      else (lit ''en'', lit ''ja''))"

section \<open>DeepL adapter\<close>

text \<open>
  The DeepL SDK is an external service. \<open>deepl.Translator(env.str("DEEPL_AUTH_KEY"))\<close>
  either raises or yields a translator object, whose two methods either raise or return:
  \<open>translate_text\<close> (source text, source language, target language) the translation,
  and \<open>get_usage\<close> the value of \<open>usage_obj.character.count\<close>. The SDK hands the
  translation over as a \<open>TextResult\<close> object; the record keeps its text.
\<close>

record translator =
  translate_text :: "str \<Rightarrow> str \<Rightarrow> str \<Rightarrow> exn + str"
  get_usage :: "exn + int"

text \<open>The usage slot holds the remote count or a placeholder string.\<close>

datatype usage_value = UsageCount int | UsageText str

text \<open>Python truthiness of a \<open>str\<close> and of the values tested by \<open>if not usage:\<close>.\<close>

definition str_truthy :: "str \<Rightarrow> bool" where
  "str_truthy s = (s \<noteq> [])"

fun usage_truthy :: "usage_value \<Rightarrow> bool" where
  "usage_truthy (UsageCount n) = (n \<noteq> 0)"
| "usage_truthy (UsageText s) = (s \<noteq> [])"

text \<open>
  \<open>call_deepl_api\<close> of utils.py: three \<open>try\<close> blocks, each with the single handler
  \<open>except DeepLException\<close>; an exception of any other class leaves the function.
\<close>

definition call_deepl_api ::
    "(exn + translator) \<Rightarrow> str \<Rightarrow> str \<Rightarrow> str \<Rightarrow> exn + (str \<times> usage_value)" where
  "call_deepl_api new_translator source_text source_lang target_lang =
     (case new_translator of
        Inl e \<Rightarrow>
          (case e of
             DeepLException m \<Rightarrow>
               Inr (lit ''(DeepL authentication error: '' @ m @ lit '')'',
                    UsageText (lit ''(Unknown)''))
           | IndexError m \<Rightarrow> Inl e
           | OtherException m \<Rightarrow> Inl e)
      | Inr tr \<Rightarrow>
          (case translate_text tr source_text source_lang target_lang of
             Inl e \<Rightarrow>
               (case e of
                  DeepLException m \<Rightarrow>
                    Inr (lit ''(DeepL translation error: '' @ m @ lit '')'',
                         UsageText (lit ''(Unknown)''))
                | IndexError m \<Rightarrow> Inl e
                | OtherException m \<Rightarrow> Inl e)
           | Inr result \<Rightarrow>
               (case get_usage tr of
                  Inl e \<Rightarrow>
                    (case e of
                       DeepLException m \<Rightarrow>
                         Inr (result, UsageText (lit ''(DeepL usage error: '' @ m @ lit '')''))
                     | IndexError m \<Rightarrow> Inl e
                     | OtherException m \<Rightarrow> Inl e)
                | Inr n \<Rightarrow> Inr (result, UsageCount n))))"

text \<open>
  In views.py the variable \<open>result\<close> holds a \<open>str\<close> (the initial \<open>""\<close> or a
  placeholder) or the \<open>TextResult\<close> object that \<open>translate_text\<close> returned, which is
  why \<open>homepage_view\<close> takes \<open>str(deepl_result)\<close> before \<open>len\<close>. A \<open>TextResult\<close>
  has \<open>__str__\<close>, giving its text, and neither \<open>__bool__\<close> nor \<open>__len__\<close> nor
  \<open>__add__\<close>: it is truthy, and \<open>result + "..."\<close> raises \<open>TypeError\<close>, here an
  \<open>OtherException\<close> with Python's message.
\<close>

datatype result_value = StrValue str | TextResult str

fun result_truthy :: "result_value \<Rightarrow> bool" where
  "result_truthy (StrValue s) = (s \<noteq> [])"
| "result_truthy (TextResult t) = True"

fun result_str :: "result_value \<Rightarrow> str" where
  "result_str (StrValue s) = s"
| "result_str (TextResult t) = t"

definition text_result_add_error :: exn where
  "text_result_add_error =
     OtherException (lit ''unsupported operand type(s) for +: '' @ [39] @ lit ''TextResult''
                     @ [39] @ lit '' and '' @ [39] @ lit ''str'' @ [39])"

fun result_add :: "result_value \<Rightarrow> str \<Rightarrow> exn + result_value" where
  "result_add (StrValue s) suffix = Inr (StrValue (s @ suffix))"
| "result_add (TextResult t) suffix = Inl text_result_add_error"

text \<open>
  \<open>call_deepl_api\<close> of views.py: one \<open>try\<close> block with the handlers
  \<open>except DeepLException\<close> and \<open>except Exception\<close>. The handlers see \<open>result\<close> and
  \<open>usage\<close> as the block left them. An exception raised inside a handler is not caught
  by the other handler of the same \<open>try\<close> statement and leaves the function.
\<close>

definition views_deepl_handler ::
    "exn \<Rightarrow> result_value \<Rightarrow> usage_value \<Rightarrow> exn + (result_value \<times> usage_value)" where
  "views_deepl_handler e result usage =
     (case e of
        DeepLException m \<Rightarrow>
          (case (if result_truthy result
                 then result_add result ([10] @ lit ''(DeepL Error: '' @ m @ lit '')'')
                 else Inr (StrValue (lit ''(DeepL Error: '' @ m @ lit '')''))) of
             Inl e' \<Rightarrow> Inl e'
           | Inr result' \<Rightarrow>
               Inr (result',
                    if \<not> usage_truthy usage then UsageText (lit ''(Error)'') else usage))
      | IndexError m \<Rightarrow>
          (case (if result_truthy result
                 then result_add result (lit ''(Error: '' @ m @ lit '')'')
                 else Inr (StrValue (lit ''(Error: '' @ m @ lit '')''))) of
             Inl e' \<Rightarrow> Inl e'
           | Inr result' \<Rightarrow>
               Inr (result',
                    if \<not> usage_truthy usage then UsageText (lit ''(Error)'') else usage))
      | OtherException m \<Rightarrow>
          (case (if result_truthy result
                 then result_add result (lit ''(Error: '' @ m @ lit '')'')
                 else Inr (StrValue (lit ''(Error: '' @ m @ lit '')''))) of
             Inl e' \<Rightarrow> Inl e'
           | Inr result' \<Rightarrow>
               Inr (result',
                    if \<not> usage_truthy usage then UsageText (lit ''(Error)'') else usage)))"

definition views_call_deepl_api ::
    "(exn + translator) \<Rightarrow> str \<Rightarrow> str \<Rightarrow> str \<Rightarrow> exn + (result_value \<times> usage_value)" where
  "views_call_deepl_api new_translator source_text source_lang target_lang =
     (case new_translator of
        Inl e \<Rightarrow> views_deepl_handler e (StrValue []) (UsageText [])
      | Inr tr \<Rightarrow>
          (case translate_text tr source_text source_lang target_lang of
             Inl e \<Rightarrow> views_deepl_handler e (StrValue []) (UsageText [])
           | Inr result \<Rightarrow>
               (case get_usage tr of
                  Inl e \<Rightarrow> views_deepl_handler e (TextResult result) (UsageText [])
                | Inr n \<Rightarrow> Inr (TextResult result, UsageCount n))))"

section \<open>Usage tracker\<close>

text \<open>The two fields of \<open>timezone.now()\<close> that the tracker reads.\<close>

record datetime =
  month :: int
  year :: int

text \<open>
  Modelled from the spec: models.py, which declares the \<open>Engine\<close> model, is not among the
  sources. The fields are those \<open>get_google_usage\<close> reads and writes, with the types of the
  spec's data model (a name, an integer usage count, the month and year of the last reset),
  and Django's primary key, by which \<open>save()\<close> finds the row to update.
\<close>

record engine =
  pk :: nat
  name :: str
  current_usage :: int
  month_usage_last_reset :: int
  year_usage_last_reset :: int

text \<open>The table of engines is the list of its rows, in the order a query returns them.\<close>

type_synonym engine_table = "engine list"

definition objects_filter :: "str \<Rightarrow> engine_table \<Rightarrow> engine list" where
  "objects_filter n tbl = filter (\<lambda>e. name e = n) tbl"

definition save :: "engine \<Rightarrow> engine_table \<Rightarrow> engine_table" where
  "save g tbl = map (\<lambda>e. if pk e = pk g then g else e) tbl"

text \<open>
  \<open>get_google_usage\<close>: \<open>timezone.now()\<close> is read twice, once for the month and once for
  the year; \<open>now1\<close> and \<open>now2\<close> are the two readings. Indexing the empty query set
  raises \<open>IndexError\<close>. The result is the returned usage and the table after \<open>save()\<close>.
\<close>

definition get_google_usage ::
    "datetime \<Rightarrow> datetime \<Rightarrow> str \<Rightarrow> engine_table \<Rightarrow> exn + (int \<times> engine_table)" where
  "get_google_usage now1 now2 source_text tbl =
     (case objects_filter (lit ''Google'') tbl of
        [] \<Rightarrow> Inl (IndexError (lit ''list index out of range''))
      | google_engine # _ \<Rightarrow>
          (let current_date = (month now1, year now2);
               last_reset_date = (month_usage_last_reset google_engine,
                                  year_usage_last_reset google_engine);
               google_engine' =
                 (if last_reset_date \<noteq> current_date
                  then google_engine
                         \<lparr>current_usage := int (length source_text),
                          month_usage_last_reset := fst current_date,
                          year_usage_last_reset := snd current_date\<rparr>
                  else google_engine
                         \<lparr>current_usage := current_usage google_engine
                                           + int (length source_text)\<rparr>)
           in Inr (current_usage google_engine', save google_engine' tbl)))"

text \<open>The stored record of the Google engine: the row the tracker would fetch.\<close>

definition google_row :: "engine_table \<Rightarrow> engine option" where
  "google_row tbl =
     (case objects_filter (lit ''Google'') tbl of [] \<Rightarrow> None | g # _ \<Rightarrow> Some g)"

section \<open>Google adapter\<close>

text \<open>
  The body of the \<open>try\<close> block up to the reading of
  \<open>response.translations[0].translated_text\<close> consists of calls to the Google client
  library: for a source text, source language and target language it either raises or
  yields that text.
\<close>

type_synonym google_client = "str \<Rightarrow> str \<Rightarrow> str \<Rightarrow> exn + str"

text \<open>
  \<open>call_google_api_v3\<close> of utils.py: the handler \<open>except Exception\<close> closes the
  \<open>try\<close> block, and \<open>get_google_usage\<close> is called after it.
\<close>

definition call_google_api_v3 ::
    "google_client \<Rightarrow> datetime \<Rightarrow> datetime \<Rightarrow> str \<Rightarrow> str \<Rightarrow> str \<Rightarrow> engine_table
       \<Rightarrow> exn + ((str \<times> int) \<times> engine_table)" where
  "call_google_api_v3 client now1 now2 source_text source_lang target_lang tbl =
     (let result =
            (case client source_text source_lang target_lang of
               Inr translated_text \<Rightarrow>
                 (if str_truthy translated_text then translated_text
                  else lit ''(Error: Translation not included in response from Google)'')
             | Inl e \<Rightarrow> lit ''(Error: '' @ exn_str e @ lit '')'')
      in case get_google_usage now1 now2 source_text tbl of
           Inl e \<Rightarrow> Inl e
         | Inr (usage, tbl') \<Rightarrow> Inr ((result, usage), tbl'))"

text \<open>\<open>call_google_api_v3\<close> of views.py returns the result alone and keeps no usage.\<close>

definition views_call_google_api_v3 :: "google_client \<Rightarrow> str \<Rightarrow> str \<Rightarrow> str \<Rightarrow> exn + str" where
  "views_call_google_api_v3 client source_text source_lang target_lang =
     (case client source_text source_lang target_lang of
        Inr translated_text \<Rightarrow>
          Inr (if str_truthy translated_text then translated_text
               else lit ''(Error: Translation not included in response from Google)'')
      | Inl e \<Rightarrow> Inr (lit ''(Error: '' @ exn_str e @ lit '')''))"

text \<open>An external call whose outcome does not depend on its three arguments.\<close>

definition const_outcome :: "'a \<Rightarrow> str \<Rightarrow> str \<Rightarrow> str \<Rightarrow> 'a" where
  "const_outcome r source_text source_lang target_lang = r"

section \<open>Form page\<close>

text \<open>
  The request carries its method (\<open>request.method\<close>) and the posted fields
  (\<open>request.POST\<close>).
\<close>

type_synonym querydict = "(str \<times> str) list"

record request =
  http_method :: str
  POST :: querydict

text \<open>
  Modelled from the spec: forms.py, which declares \<open>InputForm\<close>, is not among the
  sources. The form is a parameter: for the posted fields it gives the cleaned direction
  and source text when \<open>is_valid()\<close> holds, and \<open>None\<close> otherwise.
\<close>

type_synonym input_form = "querydict \<Rightarrow> (str \<times> str) option"

datatype form = UnboundForm | BoundForm querydict

record output_context =
  ctx_source_text :: str
  ctx_source_text_length :: int
  ctx_source_lang :: str
  ctx_target_lang :: str
  ctx_deepl_result :: result_value
  ctx_deepl_result_length :: int
  ctx_deepl_usage :: usage_value
  ctx_google_result :: str
  ctx_google_result_length :: int

datatype page_context = InputContext form | OutputContext output_context

record response =
  status_code :: int
  template_name :: str
  response_context :: page_context

text \<open>
  \<open>django.shortcuts.render\<close> builds an \<open>HttpResponse\<close> from the template and the
  context; no status is passed, so the response has Django's default status 200.
\<close>

definition render :: "str \<Rightarrow> page_context \<Rightarrow> response" where
  "render template ctx = \<lparr>status_code = 200, template_name = template, response_context = ctx\<rparr>"

text \<open>
  \<open>homepage_view\<close> of views.py calls the adapters of views.py and has no handler of its
  own: an exception leaving an adapter leaves the view.
\<close>

definition homepage_view ::
    "input_form \<Rightarrow> (exn + translator) \<Rightarrow> google_client \<Rightarrow> request \<Rightarrow> exn + response" where
  "homepage_view form_class new_translator client req =
     (if http_method req = lit ''POST'' then
        (case form_class (POST req) of
           Some (direction, source_text) \<Rightarrow>
             (let source_text_length = int (length source_text);
                  (source_lang, target_lang) = views_translation_direction direction
              in case views_call_deepl_api new_translator source_text source_lang target_lang of
                   Inl e \<Rightarrow> Inl e
                 | Inr (deepl_result, deepl_usage) \<Rightarrow>
                     (let deepl_result_length = int (length (result_str deepl_result))
                      in case views_call_google_api_v3 client source_text source_lang
                                target_lang of
                           Inl e \<Rightarrow> Inl e
                         | Inr google_result \<Rightarrow>
                             (let google_result_length = int (length google_result)
                              in Inr (render (lit ''output.html'')
                                   (OutputContext
                                      \<lparr>ctx_source_text = source_text,
                                       ctx_source_text_length = source_text_length,
                                       ctx_source_lang = source_lang,
                                       ctx_target_lang = target_lang,
                                       ctx_deepl_result = deepl_result,
                                       ctx_deepl_result_length = deepl_result_length,
                                       ctx_deepl_usage = deepl_usage,
                                       ctx_google_result = google_result,
                                       ctx_google_result_length = google_result_length\<rparr>)))))
         | None \<Rightarrow> Inr (render (lit ''input.html'') (InputContext (BoundForm (POST req)))))
      else Inr (render (lit ''input.html'') (InputContext UnboundForm)))"

section \<open>Sequences of tracker operations\<close>

text \<open>
  One tracker operation: the two clock readings of the call and the submitted text.
  \<open>call_date\<close> is the pair the tracker computes as \<open>current_date\<close>: the month of
  the first reading and the year of the second.
\<close>

record tracker_call =
  first_now :: datetime
  second_now :: datetime
  submitted :: str

definition call_date :: "tracker_call \<Rightarrow> int \<times> int" where
  "call_date c = (month (first_now c), year (second_now c))"

definition last_reset :: "engine \<Rightarrow> int \<times> int" where
  "last_reset g = (month_usage_last_reset g, year_usage_last_reset g)"

text \<open>
  Whether a call on a table takes the reset branch: the guard
  \<open>last_reset_date != current_date\<close> on the row the tracker fetches.
\<close>

definition takes_reset_branch :: "tracker_call \<Rightarrow> engine_table \<Rightarrow> bool" where
  "takes_reset_branch c tbl =
     (case google_row tbl of
        None \<Rightarrow> False
      | Some g \<Rightarrow> (month_usage_last_reset g, year_usage_last_reset g) \<noteq> call_date c)"

text \<open>
  Sequential calls of \<open>get_google_usage\<close>, each on the table the previous one saved. The
  log holds, for every call, whether it took the reset branch and the usage it returned.
  The first exception ends the run.
\<close>

fun run_tracker ::
    "tracker_call list \<Rightarrow> engine_table \<Rightarrow> exn + ((bool \<times> int) list \<times> engine_table)" where
  "run_tracker [] tbl = Inr ([], tbl)"
| "run_tracker (c # cs) tbl =
     (case get_google_usage (first_now c) (second_now c) (submitted c) tbl of
        Inl e \<Rightarrow> Inl e
      | Inr (usage, tbl') \<Rightarrow>
          (case run_tracker cs tbl' of
             Inl e \<Rightarrow> Inl e
           | Inr (entries, tbl'') \<Rightarrow>
               Inr ((takes_reset_branch c tbl, usage) # entries, tbl'')))"

text \<open>
  The spec's reading of the counter, written from its words and not from the code: the
  texts submitted since the last recorded reset. A call records a reset when the month and
  year stored before it differ from its own date, so after a run the calls since the last
  reset are the longest final stretch of calls with one and the same date; when no call of
  the run recorded a reset, they are all calls of the run, after the texts \<open>before\<close>
  that had been submitted since the reset recorded in the initial row, of date \<open>d0\<close>.
\<close>

fun final_stretch :: "tracker_call list \<Rightarrow> tracker_call list" where
  "final_stretch [] = []"
| "final_stretch (c # cs) =
     (if list_all (\<lambda>c'. call_date c' = call_date c) cs then c # cs else final_stretch cs)"

definition texts_since_reset :: "int \<times> int \<Rightarrow> str list \<Rightarrow> tracker_call list \<Rightarrow> str list" where
  "texts_since_reset d0 before calls =
     (if list_all (\<lambda>c. call_date c = d0) calls then before @ map submitted calls
      else map submitted (final_stretch calls))"

definition total_length :: "str list \<Rightarrow> int" where
  "total_length ts = sum_list (map (\<lambda>t. int (length t)) ts)"

text \<open>
  A form for the examples: valid when both fields are posted and the source text is not
  empty; the cleaned data are the posted values.
\<close>

definition example_form :: input_form where
  "example_form posted =
     (case (map_of posted (lit ''direction''), map_of posted (lit ''source_text'')) of
        (Some direction, Some source_text) \<Rightarrow>
          (if source_text = [] then None else Some (direction, source_text))
      | _ \<Rightarrow> None)"

section \<open>The stored record under the tracker\<close>

text \<open>
  \<open>save()\<close> of a row that keeps the name and primary key of the fetched Google row
  leaves it the row the next query fetches.
\<close>

lemma google_row_save:
  "google_row tbl = Some g \<Longrightarrow> name g' = lit ''Google'' \<Longrightarrow> pk g' = pk g
     \<Longrightarrow> google_row (save g' tbl) = Some g'"
  unfolding google_row_def objects_filter_def save_def
  by (induction tbl) (auto split: list.splits if_splits)

lemma google_row_name: "google_row tbl = Some g \<Longrightarrow> name g = lit ''Google''"
proof -
  assume "google_row tbl = Some g"
  then obtain rest where "filter (\<lambda>e. name e = lit ''Google'') tbl = g # rest"
    unfolding google_row_def objects_filter_def by (auto split: list.splits)
  then have "g \<in> set (filter (\<lambda>e. name e = lit ''Google'') tbl)"
    by (metis list.set_intros(1))
  then show ?thesis by simp
qed

text \<open>
  With a Google row stored, \<open>get_google_usage\<close> returns, by one of its two branches.
\<close>

lemma get_google_usage_row:
  assumes "google_row tbl = Some g"
  shows "get_google_usage now1 now2 source_text tbl =
           (if (month_usage_last_reset g, year_usage_last_reset g) \<noteq> (month now1, year now2)
            then Inr (int (length source_text),
                      save (g\<lparr>current_usage := int (length source_text),
                               month_usage_last_reset := month now1,
                               year_usage_last_reset := year now2\<rparr>) tbl)
            else Inr (current_usage g + int (length source_text),
                      save (g\<lparr>current_usage := current_usage g + int (length source_text)\<rparr>) tbl))"
  using assms unfolding get_google_usage_def google_row_def
  by (auto split: list.splits simp: Let_def)

text \<open>
  One call of the tracker on a table with a Google row: it returns, the stored date of the
  last reset becomes the date of the call, and the branch and the new usage are as the
  guard decides.
\<close>

lemma get_google_usage_call:
  assumes "google_row tbl = Some g"
  shows "\<exists>tbl' g'. get_google_usage (first_now c) (second_now c) (submitted c) tbl
                      = Inr (current_usage g', tbl') \<and>
                    google_row tbl' = Some g' \<and>
                    last_reset g' = call_date c \<and>
                    takes_reset_branch c tbl = (last_reset g \<noteq> call_date c) \<and>
                    current_usage g' =
                      (if last_reset g \<noteq> call_date c then int (length (submitted c))
                       else current_usage g + int (length (submitted c)))"
proof (cases "last_reset g = call_date c")
  case True
  then have same: "(month_usage_last_reset g, year_usage_last_reset g)
                     = (month (first_now c), year (second_now c))"
    by (simp add: last_reset_def call_date_def)
  let ?g' = "g\<lparr>current_usage := current_usage g + int (length (submitted c))\<rparr>"
  have "name ?g' = lit ''Google''" using assms by (simp add: google_row_name)
  then have "google_row (save ?g' tbl) = Some ?g'"
    using assms by (intro google_row_save) simp_all
  moreover have "get_google_usage (first_now c) (second_now c) (submitted c) tbl
                   = Inr (current_usage ?g', save ?g' tbl)"
    using assms same by (simp add: get_google_usage_row)
  moreover have "last_reset ?g' = call_date c"
    using True by (simp add: last_reset_def)
  moreover have "takes_reset_branch c tbl = (last_reset g \<noteq> call_date c)"
    using assms by (simp add: takes_reset_branch_def last_reset_def)
  ultimately show ?thesis using True by (intro exI [of _ "save ?g' tbl"] exI [of _ ?g']) simp
next
  case False
  then have due: "(month_usage_last_reset g, year_usage_last_reset g)
                    \<noteq> (month (first_now c), year (second_now c))"
    by (simp add: last_reset_def call_date_def)
  let ?g' = "g\<lparr>current_usage := int (length (submitted c)),
               month_usage_last_reset := month (first_now c),
               year_usage_last_reset := year (second_now c)\<rparr>"
  have "name ?g' = lit ''Google''" using assms by (simp add: google_row_name)
  then have "google_row (save ?g' tbl) = Some ?g'"
    using assms by (intro google_row_save) simp_all
  moreover have "get_google_usage (first_now c) (second_now c) (submitted c) tbl
                   = Inr (current_usage ?g', save ?g' tbl)"
    using assms due by (simp add: get_google_usage_row)
  moreover have "last_reset ?g' = call_date c"
    by (simp add: last_reset_def call_date_def)
  moreover have "takes_reset_branch c tbl = (last_reset g \<noteq> call_date c)"
    using assms by (simp add: takes_reset_branch_def last_reset_def)
  ultimately show ?thesis using False by (intro exI [of _ "save ?g' tbl"] exI [of _ ?g']) simp
qed

section \<open>Usage tracker: single calls\<close>






section \<open>Direction resolver: both branches\<close>

text \<open>
  Claim C3. For the label \<open>Ja>En\<close> the direction resolver, in utils.py and in views.py,
  returns the pair \<open>("ja", "en-us")\<close>.
\<close>

theorem direction_ja_en:
  "translation_direction (lit ''Ja>En'') = (lit ''ja'', lit ''en-us'') \<and>
   views_translation_direction (lit ''Ja>En'') = (lit ''ja'', lit ''en-us'')"
  by (simp add: translation_direction_def views_translation_direction_def)

text \<open>
  Claim C4. For every other label the direction resolver returns \<open>("en", "ja")\<close>; it
  has no error result. The witness takes the label \<open>En>Ja\<close>, the empty label and a
  label of two Japanese characters.
\<close>

theorem direction_default:
  assumes "direction \<noteq> lit ''Ja>En''"
  shows "translation_direction direction = (lit ''en'', lit ''ja'') \<and>
         views_translation_direction direction = (lit ''en'', lit ''ja'')"
  using assms by (simp add: translation_direction_def views_translation_direction_def)

theorem direction_default_witness:
  "lit ''En>Ja'' \<noteq> lit ''Ja>En'' \<and>
   translation_direction (lit ''En>Ja'') = (lit ''en'', lit ''ja'') \<and>
   views_translation_direction (lit ''En>Ja'') = (lit ''en'', lit ''ja'') \<and>
   [] \<noteq> lit ''Ja>En'' \<and>
   translation_direction [] = (lit ''en'', lit ''ja'') \<and>
   [26085, 33521] \<noteq> lit ''Ja>En'' \<and>
   translation_direction [26085, 33521] = (lit ''en'', lit ''ja'')"
proof -
  have a: "lit ''En>Ja'' \<noteq> lit ''Ja>En''" by (simp add: lit_def)
  have b: "[] \<noteq> lit ''Ja>En''" by (simp add: lit_def)
  have c: "[26085, 33521] \<noteq> lit ''Ja>En''" by (simp add: lit_def)
  show ?thesis
    using a b c direction_default [OF a] direction_default [OF b] direction_default [OF c]
    by simp
qed

section \<open>Usage tracker and failed translations\<close>

text \<open>
  Claim C5, as stated, fails: \<open>call_google_api_v3\<close> calls \<open>get_google_usage\<close> after
  its \<open>try\<close> block, on every path. Here the translation call raises, the adapter
  returns the placeholder, and the stored usage has grown from 100 to 105.
\<close>

theorem failed_translation_counts_usage:
  "call_google_api_v3 (const_outcome (Inl (OtherException (lit ''quota exceeded''))))
       \<lparr>month = 4, year = 2023\<rparr> \<lparr>month = 4, year = 2023\<rparr>
       (lit ''hello'') (lit ''en'') (lit ''ja'')
       [\<lparr>pk = 1, name = lit ''Google'', current_usage = 100,
          month_usage_last_reset = 4, year_usage_last_reset = 2023\<rparr>]
     = Inr ((lit ''(Error: quota exceeded)'', 105),
            [\<lparr>pk = 1, name = lit ''Google'', current_usage = 105,
               month_usage_last_reset = 4, year_usage_last_reset = 2023\<rparr>])"
  by (simp add: call_google_api_v3_def get_google_usage_def objects_filter_def save_def
        const_outcome_def lit_def)

text \<open>
  Claim C5, amended. The usage record is updated by every call of
  \<open>call_google_api_v3\<close>, whether the translation call returns or raises: the table after
  the call, or the exception that leaves it, is the one \<open>get_google_usage\<close> produces
  for the source text, whatever the client does.
\<close>

theorem google_usage_updated_whatever_the_outcome:
  "map_sum id snd (call_google_api_v3 client now1 now2 source_text source_lang target_lang tbl)
     = map_sum id snd (get_google_usage now1 now2 source_text tbl)"
  by (simp add: call_google_api_v3_def Let_def split: sum.splits prod.splits)

section \<open>Usage tracker: sequences of calls\<close>

lemma total_length_nonneg: "0 \<le> total_length ts"
  unfolding total_length_def by (induction ts) auto

lemma total_length_append: "total_length (xs @ ys) = total_length xs + total_length ys"
  by (simp add: total_length_def)

text \<open>
  The texts since the last recorded reset, call by call: a call whose date is the stored
  one adds its text, any other call starts afresh with its text.
\<close>

lemma texts_since_reset_Nil: "texts_since_reset d0 before [] = before"
  by (simp add: texts_since_reset_def)

lemma texts_since_reset_Cons:
  "texts_since_reset d0 before (c # cs) =
     texts_since_reset (call_date c)
       (if call_date c = d0 then before @ [submitted c] else [submitted c]) cs"
  by (auto simp: texts_since_reset_def list_all_iff)

text \<open>
  Claim C6. Let the stored usage be the total length of the texts \<open>before\<close> submitted
  since the recorded reset (so it is not negative). Then every sequence of tracker calls
  returns, and afterwards the stored usage is not negative and is the total length of the
  texts submitted since the last recorded reset. A single call is the sequence of length
  one, so every call of \<open>get_google_usage\<close> preserves the invariant.
\<close>

theorem usage_counts_texts_since_reset:
  assumes "google_row tbl = Some g"
    and "current_usage g = total_length before"
  shows "\<exists>entries tbl' g'.
           run_tracker calls tbl = Inr (entries, tbl') \<and>
           google_row tbl' = Some g' \<and>
           0 \<le> current_usage g' \<and>
           current_usage g' = total_length (texts_since_reset (last_reset g) before calls)"
  using assms
proof (induction calls arbitrary: tbl g before)
  case Nil
  then show ?case by (simp add: texts_since_reset_Nil total_length_nonneg)
next
  case (Cons c cs)
  from get_google_usage_call [OF Cons.prems(1), of c]
  obtain tbl1 g1 where
    step: "get_google_usage (first_now c) (second_now c) (submitted c) tbl
             = Inr (current_usage g1, tbl1)"
    and row1: "google_row tbl1 = Some g1"
    and date1: "last_reset g1 = call_date c"
    and usage1: "current_usage g1 =
                   (if last_reset g \<noteq> call_date c then int (length (submitted c))
                    else current_usage g + int (length (submitted c)))"
    by blast
  let ?before1 = "if call_date c = last_reset g then before @ [submitted c] else [submitted c]"
  have inv1: "current_usage g1 = total_length ?before1"
    using usage1 Cons.prems(2) by (auto simp: total_length_def)
  from Cons.IH [OF row1 inv1]
  obtain entries tbl' g' where
    rest: "run_tracker cs tbl1 = Inr (entries, tbl')"
    and row': "google_row tbl' = Some g'"
    and nonneg: "0 \<le> current_usage g'"
    and usage': "current_usage g' = total_length (texts_since_reset (last_reset g1) ?before1 cs)"
    by blast
  have "run_tracker (c # cs) tbl
          = Inr ((takes_reset_branch c tbl, current_usage g1) # entries, tbl')"
    using step rest by simp
  moreover have "current_usage g'
                   = total_length (texts_since_reset (last_reset g) before (c # cs))"
    using usage' date1 by (simp add: texts_since_reset_Cons)
  ultimately show ?case using row' nonneg by blast
qed

theorem usage_counts_texts_since_reset_witness:
  "google_row [\<lparr>pk = 1, name = lit ''Google'', current_usage = 7,
                month_usage_last_reset = 3, year_usage_last_reset = 2023\<rparr>]
     = Some \<lparr>pk = 1, name = lit ''Google'', current_usage = 7,
              month_usage_last_reset = 3, year_usage_last_reset = 2023\<rparr> \<and>
   (7::int) = total_length [lit ''bonjour''] \<and>
   texts_since_reset (3, 2023) [lit ''bonjour'']
       [\<lparr>first_now = \<lparr>month = 3, year = 2023\<rparr>, second_now = \<lparr>month = 3, year = 2023\<rparr>,
          submitted = lit ''ab''\<rparr>,
        \<lparr>first_now = \<lparr>month = 4, year = 2023\<rparr>, second_now = \<lparr>month = 4, year = 2023\<rparr>,
          submitted = lit ''hello''\<rparr>,
        \<lparr>first_now = \<lparr>month = 4, year = 2023\<rparr>, second_now = \<lparr>month = 4, year = 2023\<rparr>,
          submitted = lit ''xyz''\<rparr>]
     = [lit ''hello'', lit ''xyz''] \<and>
   run_tracker
       [\<lparr>first_now = \<lparr>month = 3, year = 2023\<rparr>, second_now = \<lparr>month = 3, year = 2023\<rparr>,
          submitted = lit ''ab''\<rparr>,
        \<lparr>first_now = \<lparr>month = 4, year = 2023\<rparr>, second_now = \<lparr>month = 4, year = 2023\<rparr>,
          submitted = lit ''hello''\<rparr>,
        \<lparr>first_now = \<lparr>month = 4, year = 2023\<rparr>, second_now = \<lparr>month = 4, year = 2023\<rparr>,
          submitted = lit ''xyz''\<rparr>]
       [\<lparr>pk = 1, name = lit ''Google'', current_usage = 7,
          month_usage_last_reset = 3, year_usage_last_reset = 2023\<rparr>]
     = Inr ([(False, 9), (True, 5), (False, 8)],
            [\<lparr>pk = 1, name = lit ''Google'', current_usage = 8,
               month_usage_last_reset = 4, year_usage_last_reset = 2023\<rparr>])"
proof -
  let ?g = "\<lparr>pk = 1, name = lit ''Google'', current_usage = 7,
             month_usage_last_reset = 3, year_usage_last_reset = 2023\<rparr>"
  let ?calls =
    "[\<lparr>first_now = \<lparr>month = 3, year = 2023\<rparr>, second_now = \<lparr>month = 3, year = 2023\<rparr>,
        submitted = lit ''ab''\<rparr>,
      \<lparr>first_now = \<lparr>month = 4, year = 2023\<rparr>, second_now = \<lparr>month = 4, year = 2023\<rparr>,
        submitted = lit ''hello''\<rparr>,
      \<lparr>first_now = \<lparr>month = 4, year = 2023\<rparr>, second_now = \<lparr>month = 4, year = 2023\<rparr>,
        submitted = lit ''xyz''\<rparr>]"
  have row: "google_row [?g] = Some ?g"
    by (simp add: google_row_def objects_filter_def)
  have inv: "current_usage ?g = total_length [lit ''bonjour'']"
    by (simp add: total_length_def lit_def)
  have texts: "texts_since_reset (3, 2023) [lit ''bonjour''] ?calls = [lit ''hello'', lit ''xyz'']"
    by (simp add: texts_since_reset_def call_date_def)
  have run: "run_tracker ?calls [?g]
               = Inr ([(False, 9), (True, 5), (False, 8)],
                      [?g\<lparr>current_usage := 8, month_usage_last_reset := 4\<rparr>])"
    by (simp add: get_google_usage_def objects_filter_def save_def takes_reset_branch_def
          google_row_def call_date_def lit_def)
  from usage_counts_texts_since_reset [OF row inv, of ?calls]
  obtain entries tbl' g' where "run_tracker ?calls [?g] = Inr (entries, tbl')"
    and "google_row tbl' = Some g'" and "0 \<le> current_usage g'"
    and "current_usage g' = total_length (texts_since_reset (last_reset ?g) [lit ''bonjour''] ?calls)"
    by blast
  then show ?thesis using row inv texts run by simp
qed

text \<open>
  Claim C7. The claim fails on the code for a call that straddles the turn of the year:
  \<open>timezone.now()\<close> is read twice, and when the first reading falls in December 2023 and
  the second in January 2024 the tracker computes the date (12, 2024), which is neither
  month. From a record last reset in November 2023, three sequential calls (one in
  December, the straddling one, one in January) all take the reset branch: whichever month
  the straddling call is counted in, December or January, that month has two resets, and
  the returned usage falls from 3 to 2 to 1.
\<close>

theorem straddling_call_resets_twice:
  "run_tracker
       [\<lparr>first_now = \<lparr>month = 12, year = 2023\<rparr>, second_now = \<lparr>month = 12, year = 2023\<rparr>,
          submitted = lit ''abc''\<rparr>,
        \<lparr>first_now = \<lparr>month = 12, year = 2023\<rparr>, second_now = \<lparr>month = 1, year = 2024\<rparr>,
          submitted = lit ''ab''\<rparr>,
        \<lparr>first_now = \<lparr>month = 1, year = 2024\<rparr>, second_now = \<lparr>month = 1, year = 2024\<rparr>,
          submitted = lit ''a''\<rparr>]
       [\<lparr>pk = 1, name = lit ''Google'', current_usage = 7,
          month_usage_last_reset = 11, year_usage_last_reset = 2023\<rparr>]
     = Inr ([(True, 3), (True, 2), (True, 1)],
            [\<lparr>pk = 1, name = lit ''Google'', current_usage = 1,
               month_usage_last_reset = 1, year_usage_last_reset = 2024\<rparr>])"
  by (simp add: get_google_usage_def objects_filter_def save_def takes_reset_branch_def
        google_row_def call_date_def lit_def)

section \<open>Provider adapters and exceptions\<close>

text \<open>
  Claim C8. The claim fails on the code in both versions of \<open>call_deepl_api\<close>. In
  utils.py the handlers name \<open>DeepLException\<close> only: when the construction of the
  translator raises an exception of another class (an empty key), it leaves the adapter.
  In views.py, when the translation call returns and the usage query raises a
  \<open>DeepLException\<close>, the handler evaluates \<open>result + "..."\<close> on the \<open>TextResult\<close>, and
  the \<open>TypeError\<close> leaves the adapter.
\<close>

theorem deepl_adapters_let_exceptions_escape:
  "call_deepl_api (Inl (OtherException (lit ''auth_key must not be empty'')))
       (lit ''hello'') (lit ''en'') (lit ''ja'')
     = Inl (OtherException (lit ''auth_key must not be empty'')) \<and>
   views_call_deepl_api
       (Inr \<lparr>translate_text = const_outcome (Inr [20170, 26085, 12399]),
             get_usage = Inl (DeepLException (lit ''timeout''))\<rparr>)
       (lit ''hello'') (lit ''en'') (lit ''ja'')
     = Inl text_result_add_error"
  by (simp add: call_deepl_api_def views_call_deepl_api_def views_deepl_handler_def
        const_outcome_def)

section \<open>Form page: status of the response\<close>

text \<open>
  Claim C9. The claim fails on the code for a valid POST request: when DeepL translates
  the text and its usage query then raises a \<open>DeepLException\<close>, the handler of
  \<open>call_deepl_api\<close> in views.py raises \<open>TypeError\<close>, \<open>homepage_view\<close> has no handler,
  and the view ends with that exception instead of a response of status 200.
\<close>

theorem valid_post_ends_in_exception:
  "example_form [(lit ''direction'', lit ''En>Ja''), (lit ''source_text'', lit ''hello'')]
     = Some (lit ''En>Ja'', lit ''hello'') \<and>
   homepage_view example_form
       (Inr \<lparr>translate_text = const_outcome (Inr [20170, 26085, 12399]),
             get_usage = Inl (DeepLException (lit ''timeout''))\<rparr>)
       (const_outcome (Inr [20170, 26085, 12399]))
       \<lparr>http_method = lit ''POST'',
          POST = [(lit ''direction'', lit ''En>Ja''), (lit ''source_text'', lit ''hello'')]\<rparr>
     = Inl text_result_add_error"
proof -
  have valid: "example_form [(lit ''direction'', lit ''En>Ja''),
                             (lit ''source_text'', lit ''hello'')]
                 = Some (lit ''En>Ja'', lit ''hello'')"
    by (simp add: example_form_def lit_def)
  have dir: "views_translation_direction (lit ''En>Ja'') = (lit ''en'', lit ''ja'')"
    by (simp add: views_translation_direction_def lit_def)
  have deepl: "views_call_deepl_api
                 (Inr \<lparr>translate_text = const_outcome (Inr [20170, 26085, 12399]),
                       get_usage = Inl (DeepLException (lit ''timeout''))\<rparr>)
                 (lit ''hello'') (lit ''en'') (lit ''ja'')
               = Inl text_result_add_error"
    by (simp add: views_call_deepl_api_def views_deepl_handler_def const_outcome_def)
  show ?thesis
    using valid dir deepl by (simp add: homepage_view_def)
qed

section \<open>DeepL adapter: failure of the usage query\<close>

text \<open>
  Claim C10. In \<open>call_deepl_api\<close> of utils.py, when the translation call returns and the
  usage query raises a \<open>DeepLException\<close>, the function returns the translation unchanged
  as the result, with the placeholder \<open>(DeepL usage error: ...)\<close> in the usage slot.
\<close>

theorem deepl_usage_error_keeps_translation:
  assumes "translate_text tr source_text source_lang target_lang = Inr result"
    and "get_usage tr = Inl (DeepLException m)"
  shows "call_deepl_api (Inr tr) source_text source_lang target_lang
           = Inr (result, UsageText (lit ''(DeepL usage error: '' @ m @ lit '')''))"
  using assms by (simp add: call_deepl_api_def)

theorem deepl_usage_error_keeps_translation_witness:
  "translate_text \<lparr>translate_text = const_outcome (Inr (lit ''hello'')),
                   get_usage = Inl (DeepLException (lit ''timeout''))\<rparr>
       [20170, 26085, 12399] (lit ''ja'') (lit ''en-us'') = Inr (lit ''hello'') \<and>
   get_usage \<lparr>translate_text = const_outcome (Inr (lit ''hello'')),
              get_usage = Inl (DeepLException (lit ''timeout''))\<rparr>
     = Inl (DeepLException (lit ''timeout'')) \<and>
   call_deepl_api (Inr \<lparr>translate_text = const_outcome (Inr (lit ''hello'')),
                        get_usage = Inl (DeepLException (lit ''timeout''))\<rparr>)
       [20170, 26085, 12399] (lit ''ja'') (lit ''en-us'')
     = Inr (lit ''hello'', UsageText (lit ''(DeepL usage error: timeout)''))"
proof -
  let ?tr = "\<lparr>translate_text = const_outcome (Inr (lit ''hello'')),
              get_usage = Inl (DeepLException (lit ''timeout''))\<rparr>"
  have t: "translate_text ?tr [20170, 26085, 12399] (lit ''ja'') (lit ''en-us'')
             = Inr (lit ''hello'')"
    by (simp add: const_outcome_def)
  have u: "get_usage ?tr = Inl (DeepLException (lit ''timeout''))"
    by simp
  have "lit ''(DeepL usage error: '' @ lit ''timeout'' @ lit '')''
          = lit ''(DeepL usage error: timeout)''"
    by (simp add: lit_def)
  with deepl_usage_error_keeps_translation [OF t u] t u show ?thesis
    by simp
qed

end
